theory Spec2Isabelle
  imports Complex_Main "HOL-Library.AList"
begin

section \<open>JavaScript values used by the settlement code\<close>

text \<open>
  The routes and schema hooks compute with JavaScript numbers. Amounts, prices, rates and
  quantities are modelled as exact rationals (\<^typ>\<open>rat\<close>); counters and the arguments of
  the word conversion, which the source obtains from \<open>Math.floor\<close> and \<open>Math.round\<close>, are
  integers. Object ids are strings. A field that a request body or a document may leave
  out is an \<^typ>\<open>'a option\<close>.
\<close>

type_synonym object_id = string

text \<open>\<open>a || b\<close> on a possibly missing number: \<open>undefined\<close> and \<open>0\<close> are falsy.\<close>

definition or_num :: "rat option \<Rightarrow> rat \<Rightarrow> rat" where
  "or_num a b = (case a of None \<Rightarrow> b | Some v \<Rightarrow> if v = 0 then b else v)"

text \<open>\<open>a || b\<close> on a possibly missing string: \<open>undefined\<close> and the empty string are falsy.\<close>

definition or_str :: "string option \<Rightarrow> string \<Rightarrow> string" where
  "or_str a b = (case a of None \<Rightarrow> b | Some v \<Rightarrow> if v = [] then b else v)"

definition truthy_str :: "string option \<Rightarrow> bool" where
  "truthy_str a = (case a of None \<Rightarrow> False | Some v \<Rightarrow> v \<noteq> [])"

text \<open>\<open>Number.prototype.toString()\<close> on a non-negative integer: its decimal digits.\<close>

definition digit_char :: "nat \<Rightarrow> char" where
  "digit_char d = ''0123456789'' ! d"

fun toString :: "nat \<Rightarrow> string" where
  "toString n = (if n < 10 then [digit_char n] else toString (n div 10) @ [digit_char (n mod 10)])"

declare toString.simps [simp del]

text \<open>\<open>s.padStart(n, c)\<close> with a one-character pad, and \<open>s.slice(-k)\<close>.\<close>

definition padStart :: "nat \<Rightarrow> char \<Rightarrow> string \<Rightarrow> string" where
  "padStart n c s = replicate (n - length s) c @ s"

definition slice_last :: "nat \<Rightarrow> string \<Rightarrow> string" where
  "slice_last k s = drop (length s - k) s"

text \<open>\<open>Math.round\<close> rounds half up.\<close>

definition Math_round :: "rat \<Rightarrow> int" where
  "Math_round x = \<lfloor>x + 1 / 2\<rfloor>"

text \<open>
  \<open>new Date()\<close>: the calendar fields the hooks read (\<open>getMonth\<close> counts from 0) and the
  instant itself. Every route is given one clock reading.
\<close>

record js_date =
  getFullYear :: nat
  getMonth :: nat
  getDate :: nat
  getTime :: nat

section \<open>Double precision\<close>










section \<open>Amount in words (models/Invoice.js, \<open>numberToWords\<close>)\<close>

definition ones :: "string list" where
  "ones = ['''', ''One'', ''Two'', ''Three'', ''Four'', ''Five'', ''Six'', ''Seven'', ''Eight'',
           ''Nine'', ''Ten'', ''Eleven'', ''Twelve'', ''Thirteen'', ''Fourteen'', ''Fifteen'',
           ''Sixteen'', ''Seventeen'', ''Eighteen'', ''Nineteen'']"

definition tens :: "string list" where
  "tens = ['''', '''', ''Twenty'', ''Thirty'', ''Forty'', ''Fifty'', ''Sixty'', ''Seventy'',
           ''Eighty'', ''Ninety'']"

text \<open>
  Reading an array outside its bounds gives \<open>undefined\<close>, which string concatenation
  renders as the text \<open>undefined\<close>.
\<close>

definition at_index :: "string list \<Rightarrow> int \<Rightarrow> string" where
  "at_index xs i = (if 0 \<le> i \<and> i < int (length xs) then xs ! nat i else ''undefined'')"

function numToWords :: "int \<Rightarrow> string" where
  "numToWords num =
    (if num < 20 then at_index ones num
     else if num < 100 then
       at_index tens (num div 10) @ (if num mod 10 \<noteq> 0 then '' '' @ at_index ones (num mod 10) else '''')
     else if num < 1000 then
       at_index ones (num div 100) @ '' Hundred'' @
         (if num mod 100 \<noteq> 0 then '' '' @ numToWords (num mod 100) else '''')
     else if num < 100000 then
       numToWords (num div 1000) @ '' Thousand'' @
         (if num mod 1000 \<noteq> 0 then '' '' @ numToWords (num mod 1000) else '''')
     else if num < 10000000 then
       numToWords (num div 100000) @ '' Lakh'' @
         (if num mod 100000 \<noteq> 0 then '' '' @ numToWords (num mod 100000) else '''')
     else
       numToWords (num div 10000000) @ '' Crore'' @
         (if num mod 10000000 \<noteq> 0 then '' '' @ numToWords (num mod 10000000) else ''''))"
  by pat_completeness auto
termination
  by (relation "measure nat") auto

declare numToWords.simps [simp del]

definition numberToWords :: "rat \<Rightarrow> string" where
  "numberToWords amount =
    (let rupees = \<lfloor>amount\<rfloor>;
         paise = Math_round ((amount - of_int rupees) * 100);
         words = numToWords rupees @ '' Rupees''
     in if paise > 0 then words @ '' and '' @ numToWords paise @ '' Paise'' else words)"

section \<open>Documents and the store\<close>

text \<open>
  Only the fields that the order and invoice routes read or write are kept. Products and
  customers are looked up by id; orders and invoices are kept in insertion order, since
  the numbering hooks count them.
\<close>

record product =
  p_name :: string
  p_sku :: string
  sellingPrice :: rat
  p_taxRate :: rat
  inv_quantity :: rat
  trackInventory :: bool

record customer =
  c_user :: object_id
  totalOrders :: rat
  totalSpent :: rat
  averageOrderValue :: rat
  lastOrderDate :: "js_date option"

record order_item =
  oi_product :: object_id
  oi_productName :: string
  oi_sku :: string
  oi_quantity :: rat
  oi_unitPrice :: rat
  oi_discount :: rat
  oi_taxRate :: rat
  oi_taxAmount :: rat
  oi_total :: rat
  oi_notes :: "string option"

record pricing =
  subtotal :: rat
  totalDiscount :: rat
  totalTax :: rat
  shipping :: rat
  packaging :: rat
  total :: rat
  amountPaid :: rat
  amountDue :: rat

record history_entry =
  h_status :: string
  h_location :: string
  h_timestamp :: js_date
  h_notes :: string

record order =
  o_user :: object_id
  o_customer :: object_id
  orderNumber :: "string option"
  items :: "order_item list"
  status :: string
  o_pricing :: pricing
  history :: "history_entry list"
  actualDelivery :: "js_date option"
  notes_internal :: "string option"
  cancelledAt :: "js_date option"
  cancellationReason :: "string option"

record payment =
  pay_amount :: rat
  pay_method :: "string option"
  pay_reference :: "string option"
  pay_notes :: "string option"
  pay_date :: js_date

record invoice =
  i_user :: object_id
  invoiceNumber :: "string option"
  i_total :: rat
  amountInWords :: "string option"
  pd_status :: string
  paidAmount :: rat
  pd_paidDate :: "js_date option"
  payments :: "payment list"
  i_status :: string
  dates_paidDate :: "js_date option"

record db =
  products :: "object_id \<rightharpoonup> product"
  customers :: "object_id \<rightharpoonup> customer"
  orders :: "(object_id \<times> order) list"
  invoices :: "(object_id \<times> invoice) list"

text \<open>
  What a \<open>save()\<close> can throw, and what a route answers: the HTTP status with the
  \<open>error\<close> text of the JSON body.
\<close>

datatype db_error = ValidationError string | DuplicateKey string

datatype api_error = ApiError nat string

section \<open>Schemas (models/Product.js, models/Customer.js, models/Invoice.js)\<close>

text \<open>
  A \<open>save()\<close> is modelled by what the schema files say about it: the validators
  \<open>required\<close>, \<open>min\<close> and \<open>enum\<close>, the schema's pre-save hooks, and the unique index of
  the document number. Validation comes first: the hooks that a schema registers with
  \<open>pre('save')\<close> run only on a document that has passed it, and a validator that fails
  makes \<open>save()\<close> throw before anything is written. Of the required fields only the
  document number can be missing here; the others are carried by the types.
\<close>

text \<open>
  \<open>product.save()\<close>: the schema gives \<open>inventory.quantity\<close> the validator \<open>min: 0\<close>; the
  routes below modify no other validated path of a product.
\<close>

definition product_save :: "db \<Rightarrow> object_id \<Rightarrow> product \<Rightarrow> db_error + db" where
  "product_save d pid p =
    (if inv_quantity p < 0 then Inl (ValidationError ''inventory.quantity'')
     else Inr (d\<lparr>products := (products d)(pid \<mapsto> p)\<rparr>))"

text \<open>\<open>customerSchema.pre('save')\<close> and \<open>customer.save()\<close>.\<close>

definition customer_pre_save :: "customer \<Rightarrow> customer" where
  "customer_pre_save c =
    (if totalOrders c > 0 \<and> totalSpent c > 0
     then c\<lparr>averageOrderValue := totalSpent c / totalOrders c\<rparr> else c)"

definition customer_save :: "db \<Rightarrow> object_id \<Rightarrow> customer \<Rightarrow> db" where
  "customer_save d cid c = d\<lparr>customers := (customers d)(cid \<mapsto> customer_pre_save c)\<rparr>"

text \<open>\<open>Customer.findOne({ _id, user })\<close> and \<open>Order.findOne({ _id, user })\<close>.\<close>

definition findCustomer :: "db \<Rightarrow> object_id \<Rightarrow> object_id \<Rightarrow> customer option" where
  "findCustomer d cid uid =
    (case customers d cid of
       None \<Rightarrow> None
     | Some c \<Rightarrow> if c_user c = uid then Some c else None)"

definition findOrder :: "db \<Rightarrow> object_id \<Rightarrow> object_id \<Rightarrow> order option" where
  "findOrder d oid uid =
    (case map_of (orders d) oid of
       None \<Rightarrow> None
     | Some ord \<Rightarrow> if o_user ord = uid then Some ord else None)"

definition findInvoice :: "db \<Rightarrow> object_id \<Rightarrow> object_id \<Rightarrow> invoice option" where
  "findInvoice d iid uid =
    (case map_of (invoices d) iid of
       None \<Rightarrow> None
     | Some ivc \<Rightarrow> if i_user ivc = uid then Some ivc else None)"

subsection \<open>Order schema: validators, the pre-save hook, the unique index\<close>

definition order_statuses :: "string list" where
  "order_statuses =
    [''pending'', ''confirmed'', ''processing'', ''shipped'', ''delivered'', ''cancelled'', ''refunded'']"

text \<open>
  The validators \<open>required\<close> of the order number (a missing or empty string fails),
  \<open>quantity: min 1\<close> of a line item and \<open>enum\<close> of the status.
\<close>

definition order_validate :: "order \<Rightarrow> bool" where
  "order_validate ord =
    (truthy_str (orderNumber ord) \<and> list_all (\<lambda>it. 1 \<le> oi_quantity it) (items ord)
     \<and> status ord \<in> set order_statuses)"

text \<open>\<open>this.constructor.countDocuments({ user: this.user })\<close>.\<close>

definition countDocuments_orders :: "db \<Rightarrow> object_id \<Rightarrow> nat" where
  "countDocuments_orders d uid = length (filter (\<lambda>(_, ord). o_user ord = uid) (orders d))"

definition countDocuments_invoices :: "db \<Rightarrow> object_id \<Rightarrow> nat" where
  "countDocuments_invoices d uid = length (filter (\<lambda>(_, ivc). i_user ivc = uid) (invoices d))"

text \<open>
  \<open>orderSchema.pre('save')\<close>: a document without a number gets one from the date and the
  count, and \<open>amountDue\<close> is recomputed on every save. The hook runs after validation.
\<close>

definition order_number :: "js_date \<Rightarrow> nat \<Rightarrow> string" where
  "order_number date count =
    (let year = slice_last 2 (toString (getFullYear date));
         month = padStart 2 (CHR ''0'') (toString (getMonth date + 1))
     in ''ORD/'' @ year @ month @ ''/'' @ padStart 4 (CHR ''0'') (toString (count + 1)))"

definition order_pre_save :: "js_date \<Rightarrow> nat \<Rightarrow> order \<Rightarrow> order" where
  "order_pre_save date count ord =
    (let ord1 = (if \<not> truthy_str (orderNumber ord)
               then ord\<lparr>orderNumber := Some (order_number date count)\<rparr> else ord)
     in ord1\<lparr>o_pricing := (o_pricing ord1)\<lparr>amountDue := total (o_pricing ord1) - amountPaid (o_pricing ord1)\<rparr>\<rparr>)"

text \<open>
  The insert of a new order: the store refuses a second document with the same \<open>_id\<close>,
  and the index \<open>unique: true\<close> on \<open>orderNumber\<close> refuses a second document with the same
  number.
\<close>

definition order_insert :: "db \<Rightarrow> object_id \<Rightarrow> order \<Rightarrow> db_error + db" where
  "order_insert d oid ord =
    (if map_of (orders d) oid \<noteq> None then Inl (DuplicateKey ''_id'')
     else if list_ex (\<lambda>(_, ord'). orderNumber ord' = orderNumber ord) (orders d)
     then Inl (DuplicateKey ''orderNumber'')
     else Inr (d\<lparr>orders := orders d @ [(oid, ord)]\<rparr>))"

text \<open>\<open>order.save()\<close> of a new document and of a document read from the store.\<close>

definition order_save_new :: "db \<Rightarrow> js_date \<Rightarrow> object_id \<Rightarrow> order \<Rightarrow> db_error + order \<times> db" where
  "order_save_new d date oid ord =
    (if \<not> order_validate ord then Inl (ValidationError ''order'')
     else let ord' = order_pre_save date (countDocuments_orders d (o_user ord)) ord
          in case order_insert d oid ord' of
               Inl e \<Rightarrow> Inl e
             | Inr d' \<Rightarrow> Inr (ord', d'))"

definition order_save :: "db \<Rightarrow> js_date \<Rightarrow> object_id \<Rightarrow> order \<Rightarrow> db_error + order \<times> db" where
  "order_save d date oid ord =
    (if \<not> order_validate ord then Inl (ValidationError ''order'')
     else let ord' = order_pre_save date (countDocuments_orders d (o_user ord)) ord
          in Inr (ord', d\<lparr>orders := AList.update oid ord' (orders d)\<rparr>))"

subsection \<open>Invoice schema: the two pre-save hooks\<close>

definition invoice_number :: "js_date \<Rightarrow> nat \<Rightarrow> string" where
  "invoice_number date count =
    (let year = slice_last 2 (toString (getFullYear date));
         month = padStart 2 (CHR ''0'') (toString (getMonth date + 1));
         day = padStart 2 (CHR ''0'') (toString (getDate date))
     in ''INV/'' @ year @ month @ day @ ''/'' @ padStart 4 (CHR ''0'') (toString (count + 1)))"

definition invoice_pre_save :: "js_date \<Rightarrow> nat \<Rightarrow> invoice \<Rightarrow> invoice" where
  "invoice_pre_save date count ivc =
    (let ivc1 = (if \<not> truthy_str (invoiceNumber ivc)
               then ivc\<lparr>invoiceNumber := Some (invoice_number date count)\<rparr> else ivc)
     in if i_total ivc1 \<noteq> 0 then ivc1\<lparr>amountInWords := Some (numberToWords (i_total ivc1))\<rparr> else ivc1)"

definition invoice_insert :: "db \<Rightarrow> object_id \<Rightarrow> invoice \<Rightarrow> db_error + db" where
  "invoice_insert d iid ivc =
    (if map_of (invoices d) iid \<noteq> None then Inl (DuplicateKey ''_id'')
     else if list_ex (\<lambda>(_, ivc'). invoiceNumber ivc' = invoiceNumber ivc) (invoices d)
     then Inl (DuplicateKey ''invoiceNumber'')
     else Inr (d\<lparr>invoices := invoices d @ [(iid, ivc)]\<rparr>))"

text \<open>
  \<open>invoice.save()\<close> of a new document: the invoice number is required, and the check
  comes before the hooks.
\<close>

definition invoice_save_new :: "db \<Rightarrow> js_date \<Rightarrow> object_id \<Rightarrow> invoice \<Rightarrow> db_error + invoice \<times> db" where
  "invoice_save_new d date iid ivc =
    (if \<not> truthy_str (invoiceNumber ivc) then Inl (ValidationError ''invoiceNumber'')
     else let ivc' = invoice_pre_save date (countDocuments_invoices d (i_user ivc)) ivc
          in case invoice_insert d iid ivc' of
               Inl e \<Rightarrow> Inl e
             | Inr d' \<Rightarrow> Inr (ivc', d'))"

text \<open>
  \<open>invoice.save()\<close> of an invoice read from the store, whose stored fields are taken to
  satisfy the schema.
\<close>

definition invoice_save :: "db \<Rightarrow> js_date \<Rightarrow> object_id \<Rightarrow> invoice \<Rightarrow> invoice \<times> db" where
  "invoice_save d date iid ivc =
    (let ivc' = invoice_pre_save date (countDocuments_invoices d (i_user ivc)) ivc
     in (ivc', d\<lparr>invoices := AList.update iid ivc' (invoices d)\<rparr>))"

section \<open>Order routes (routes/orders.js)\<close>

text \<open>
  Each handler takes the authenticated user id, the request, one clock reading and the
  store, and returns the response together with the store as the handler leaves it. A
  handler that answers with an error has still written whatever it saved before.
\<close>

record item_req =
  ri_product :: object_id
  ri_quantity :: rat
  ri_unitPrice :: "rat option"
  ri_discount :: "rat option"
  ri_taxRate :: "rat option"
  ri_notes :: "string option"

record order_req =
  rq_customer :: object_id
  rq_items :: "item_req list"
  rq_shipping :: "rat option"
  rq_packaging :: "rat option"
  rq_amountPaid :: "rat option"
  rq_orderNumber :: "string option"
  rq_status :: "string option"

text \<open>The line item the loop of \<open>POST /\<close> pushes for one requested item.\<close>

definition line_item :: "item_req \<Rightarrow> product \<Rightarrow> order_item" where
  "line_item item product =
    (let unitPrice = or_num (ri_unitPrice item) (sellingPrice product);
         discount = or_num (ri_discount item) 0;
         taxRate = or_num (ri_taxRate item) (p_taxRate product);
         taxableAmount = unitPrice * ri_quantity item - discount;
         taxAmount = taxableAmount * (taxRate / 100);
         itemTotal = taxableAmount + taxAmount
     in \<lparr>oi_product = ri_product item, oi_productName = p_name product, oi_sku = p_sku product,
         oi_quantity = ri_quantity item, oi_unitPrice = unitPrice, oi_discount = discount,
         oi_taxRate = taxRate, oi_taxAmount = taxAmount, oi_total = itemTotal,
         oi_notes = ri_notes item\<rparr>)"


text \<open>
  The loop \<open>for (const item of orderData.items)\<close>: a missing product answers 400 at once;
  a tracked product is decremented and saved inside the loop; a save that throws reaches
  the handler's \<open>catch\<close>, which answers 500.
\<close>

fun processItems ::
  "db \<Rightarrow> item_req list \<Rightarrow> rat \<Rightarrow> order_item list \<Rightarrow> (api_error + rat \<times> order_item list) \<times> db" where
  "processItems d [] sub_total processedItems = (Inr (sub_total, processedItems), d)"
| "processItems d (item # rest) sub_total processedItems =
    (case products d (ri_product item) of
       None \<Rightarrow> (Inl (ApiError 400 (''Product not found: '' @ ri_product item)), d)
     | Some product \<Rightarrow>
         if trackInventory product then
           (case product_save d (ri_product item)
                   (product\<lparr>inv_quantity := inv_quantity product - ri_quantity item\<rparr>) of
              Inl e \<Rightarrow> (Inl (ApiError 500 ''Failed to create order''), d)
            | Inr d' \<Rightarrow>
                processItems d' rest (sub_total + oi_total (line_item item product))
                  (processedItems @ [line_item item product]))
         else
           processItems d rest (sub_total + oi_total (line_item item product))
             (processedItems @ [line_item item product]))"

text \<open>\<open>POST /\<close>: create an order.\<close>

definition createOrder ::
  "object_id \<Rightarrow> order_req \<Rightarrow> js_date \<Rightarrow> object_id \<Rightarrow> db \<Rightarrow> (api_error + order) \<times> db" where
  "createOrder userId body now oid d =
    (case findCustomer d (rq_customer body) userId of
       None \<Rightarrow> (Inl (ApiError 400 ''Customer not found''), d)
     | Some customer \<Rightarrow>
         (case processItems d (rq_items body) 0 [] of
            (Inl e, d1) \<Rightarrow> (Inl e, d1)
          | (Inr (sub_total, processedItems), d1) \<Rightarrow>
              (case order_save_new d1 now oid
                      \<lparr>o_user = userId, o_customer = rq_customer body,
                       orderNumber = rq_orderNumber body, items = processedItems,
                       status = (case rq_status body of None \<Rightarrow> ''pending'' | Some s \<Rightarrow> s),
                       o_pricing =
                         \<lparr>subtotal = sub_total,
                          totalDiscount =
                            foldl (\<lambda>sum item. sum + or_num (ri_discount item) 0) 0 (rq_items body),
                          totalTax = foldl (\<lambda>sum item. sum + oi_taxAmount item) 0 processedItems,
                          shipping = or_num (rq_shipping body) 0,
                          packaging = or_num (rq_packaging body) 0,
                          total = sub_total + or_num (rq_shipping body) 0 + or_num (rq_packaging body) 0,
                          amountPaid = or_num (rq_amountPaid body) 0,
                          amountDue = sub_total + or_num (rq_shipping body) 0 - or_num (rq_amountPaid body) 0\<rparr>,
                       history = [], actualDelivery = None, notes_internal = None,
                       cancelledAt = None, cancellationReason = None\<rparr> of
                 Inl e \<Rightarrow> (Inl (ApiError 500 ''Failed to create order''), d1)
               | Inr (ord, d2) \<Rightarrow>
                   (Inr ord,
                    customer_save d2 (rq_customer body)
                      (customer\<lparr>totalOrders := totalOrders customer + 1,
                                totalSpent := totalSpent customer + total (o_pricing ord),
                                lastOrderDate := Some now\<rparr>)))))"



text \<open>
  \<open>PATCH /:id/status\<close>: set the status. Of \<open>req.body.tracking\<close> only \<open>location\<close> is
  modelled, the one key the history entry reads.
\<close>

record status_req =
  st_status :: string
  st_notes :: "string option"
  st_location :: "string option"

definition transitionOrderStatus ::
  "object_id \<Rightarrow> object_id \<Rightarrow> status_req \<Rightarrow> js_date \<Rightarrow> db \<Rightarrow> (api_error + order) \<times> db" where
  "transitionOrderStatus userId oid body now d =
    (case findOrder d oid userId of
       None \<Rightarrow> (Inl (ApiError 404 ''Order not found''), d)
     | Some ord \<Rightarrow>
         let previousStatus = status ord;
             ord1 = ord\<lparr>status := st_status body\<rparr>;
             ord2 = (if truthy_str (st_notes body) then ord1\<lparr>notes_internal := st_notes body\<rparr> else ord1);
             ord3 = (if st_status body \<noteq> previousStatus
                     then ord2\<lparr>history := history ord2 @
                            [\<lparr>h_status = st_status body, h_location = or_str (st_location body) [],
                              h_timestamp = now, h_notes = or_str (st_notes body) []\<rparr>]\<rparr>
                     else ord2);
             ord4 = (if st_status body = ''delivered'' then ord3\<lparr>actualDelivery := Some now\<rparr> else ord3)
         in case order_save d now oid ord4 of
              Inl e \<Rightarrow> (Inl (ApiError 500 ''Failed to update status''), d)
            | Inr (ord', d') \<Rightarrow> (Inr ord', d'))"

text \<open>\<open>POST /:id/cancel\<close>: the restore loop and the handler.\<close>

fun restoreInventory :: "db \<Rightarrow> order_item list \<Rightarrow> db_error option \<times> db" where
  "restoreInventory d [] = (None, d)"
| "restoreInventory d (item # rest) =
    (case products d (oi_product item) of
       None \<Rightarrow> restoreInventory d rest
     | Some product \<Rightarrow>
         if trackInventory product then
           (case product_save d (oi_product item)
                   (product\<lparr>inv_quantity := inv_quantity product + oi_quantity item\<rparr>) of
              Inl e \<Rightarrow> (Some e, d)
            | Inr d' \<Rightarrow> restoreInventory d' rest)
         else restoreInventory d rest)"

definition cancelOrder ::
  "object_id \<Rightarrow> object_id \<Rightarrow> string option \<Rightarrow> js_date \<Rightarrow> db \<Rightarrow> (api_error + order) \<times> db" where
  "cancelOrder userId oid reason now d =
    (case findOrder d oid userId of
       None \<Rightarrow> (Inl (ApiError 404 ''Order not found''), d)
     | Some ord \<Rightarrow>
         if status ord \<in> set [''delivered'', ''cancelled'']
         then (Inl (ApiError 400 ''Order cannot be cancelled''), d)
         else
           (case restoreInventory d (items ord) of
              (Some e, d1) \<Rightarrow> (Inl (ApiError 500 ''Failed to cancel order''), d1)
            | (None, d1) \<Rightarrow>
                (case order_save d1 now oid
                        (ord\<lparr>status := ''cancelled'', cancellationReason := reason,
                             cancelledAt := Some now\<rparr>) of
                   Inl e \<Rightarrow> (Inl (ApiError 500 ''Failed to cancel order''), d1)
                 | Inr (ord', d2) \<Rightarrow> (Inr ord', d2))))"

section \<open>Invoice routes (routes/invoices.js)\<close>

record payment_req =
  pr_amount :: rat
  pr_method :: "string option"
  pr_reference :: "string option"
  pr_notes :: "string option"

text \<open>\<open>POST /:id/payment\<close>: record a payment.\<close>

definition recordPayment ::
  "object_id \<Rightarrow> object_id \<Rightarrow> payment_req \<Rightarrow> js_date \<Rightarrow> db \<Rightarrow> (api_error + invoice) \<times> db" where
  "recordPayment userId iid body now d =
    (case findInvoice d iid userId of
       None \<Rightarrow> (Inl (ApiError 404 ''Invoice not found''), d)
     | Some ivc \<Rightarrow>
         let ivc1 = ivc\<lparr>payments := payments ivc @
                      [\<lparr>pay_amount = pr_amount body, pay_method = pr_method body,
                        pay_reference = pr_reference body, pay_notes = pr_notes body,
                        pay_date = now\<rparr>]\<rparr>;
             ivc2 = ivc1\<lparr>paidAmount := paidAmount ivc1 + pr_amount body\<rparr>;
             ivc3 = (if paidAmount ivc2 \<ge> i_total ivc2
                     then ivc2\<lparr>pd_status := ''paid'', pd_paidDate := Some now,
                               dates_paidDate := Some now, i_status := ''paid''\<rparr>
                     else ivc2\<lparr>pd_status := ''partial''\<rparr>)
         in case invoice_save d now iid ivc3 of
              (ivc', d') \<Rightarrow> (Inr ivc', d'))"

section \<open>Requests in flight\<close>

text \<open>
  A handler gives up control at every \<open>await\<close>. The save of a new order first validates
  and runs the asynchronous pre-save hook, and then awaits the insert. A request that is
  saving its order is therefore in one of three phases, and the store may change between
  them.
\<close>

datatype save_request =
    Start object_id js_date order
  | Hooked object_id order
  | Finished "db_error + order"

fun step_request :: "db \<Rightarrow> save_request \<Rightarrow> save_request \<times> db" where
  "step_request d (Start oid date ord) =
    (if \<not> order_validate ord then (Finished (Inl (ValidationError ''order'')), d)
     else (Hooked oid (order_pre_save date (countDocuments_orders d (o_user ord)) ord), d))"
| "step_request d (Hooked oid ord') =
    (case order_insert d oid ord' of
       Inl e \<Rightarrow> (Finished (Inl e), d)
     | Inr d' \<Rightarrow> (Finished (Inr ord'), d'))"
| "step_request d (Finished r) = (Finished r, d)"

text \<open>A schedule names, step by step, the request that runs next.\<close>

fun run_schedule :: "nat list \<Rightarrow> save_request list \<times> db \<Rightarrow> save_request list \<times> db" where
  "run_schedule [] c = c"
| "run_schedule (k # ks) (ts, d) =
    (if k < length ts
     then (case step_request d (ts ! k) of (t', d') \<Rightarrow> run_schedule ks (ts[k := t'], d'))
     else run_schedule ks (ts, d))"

section \<open>An example store\<close>

text \<open>
  The scenario of the specification: a product priced 500 with 18 percent tax and ten
  units on hand, one customer of the business \<open>u1\<close>, and a request for two units with 50
  shipping, placed on 3 November 2026. The request carries its order number.
\<close>

definition widget :: product where
  "widget = \<lparr>p_name = ''Widget'', p_sku = ''W-1'', sellingPrice = 500, p_taxRate = 18,
              inv_quantity = 10, trackInventory = True\<rparr>"

definition alice :: customer where
  "alice = \<lparr>c_user = ''u1'', totalOrders = 0, totalSpent = 0, averageOrderValue = 0,
             lastOrderDate = None\<rparr>"

definition shop :: db where
  "shop = \<lparr>products = [''p1'' \<mapsto> widget], customers = [''c1'' \<mapsto> alice], orders = [],
            invoices = []\<rparr>"

definition clock :: js_date where
  "clock = \<lparr>getFullYear = 2026, getMonth = 10, getDate = 3, getTime = 1793700000000\<rparr>"

definition widgets :: "rat \<Rightarrow> item_req" where
  "widgets n = \<lparr>ri_product = ''p1'', ri_quantity = n, ri_unitPrice = None, ri_discount = None,
                 ri_taxRate = None, ri_notes = None\<rparr>"

definition request :: "item_req list \<Rightarrow> order_req" where
  "request its = \<lparr>rq_customer = ''c1'', rq_items = its, rq_shipping = Some 50,
                   rq_packaging = None, rq_amountPaid = None,
                   rq_orderNumber = Some ''ORD/2611/0001'', rq_status = None\<rparr>"

text \<open>The same request without an order number, and with a status outside the schema's list.\<close>

definition unnumbered :: "item_req list \<Rightarrow> order_req" where
  "unnumbered its = (request its)\<lparr>rq_orderNumber := None\<rparr>"

definition misspelt :: "item_req list \<Rightarrow> order_req" where
  "misspelt its = (request its)\<lparr>rq_status := Some ''open''\<rparr>"

text \<open>The same request with a number of the caller's choosing.\<close>

definition lettered :: "item_req list \<Rightarrow> order_req" where
  "lettered its = (request its)\<lparr>rq_orderNumber := Some ''A-7''\<rparr>"

definition first_order :: order where
  "first_order =
    \<lparr>o_user = ''u1'', o_customer = ''c1'', orderNumber = Some ''ORD/2611/0001'',
     items = [\<lparr>oi_product = ''p1'', oi_productName = ''Widget'', oi_sku = ''W-1'',
               oi_quantity = 2, oi_unitPrice = 500, oi_discount = 0, oi_taxRate = 18,
               oi_taxAmount = 180, oi_total = 1180, oi_notes = None\<rparr>],
     status = ''pending'',
     o_pricing = \<lparr>subtotal = 1180, totalDiscount = 0, totalTax = 180, shipping = 50,
                  packaging = 0, total = 1230, amountPaid = 0, amountDue = 1230\<rparr>,
     history = [], actualDelivery = None, notes_internal = None, cancelledAt = None,
     cancellationReason = None\<rparr>"

definition shop_after_order :: db where
  "shop_after_order =
    \<lparr>products = [''p1'' \<mapsto> widget\<lparr>inv_quantity := 8\<rparr>],
     customers = [''c1'' \<mapsto> alice\<lparr>totalOrders := 1, totalSpent := 1230,
                                     averageOrderValue := 1230, lastOrderDate := Some clock\<rparr>],
     orders = [(''o1'', first_order)], invoices = []\<rparr>"

text \<open>Status requests without notes or location, and the order above once delivered.\<close>

definition set_status :: "string \<Rightarrow> status_req" where
  "set_status s = \<lparr>st_status = s, st_notes = None, st_location = None\<rparr>"

definition delivered_order :: order where
  "delivered_order =
    first_order\<lparr>status := ''delivered'',
                history := [\<lparr>h_status = ''delivered'', h_location = [], h_timestamp = clock,
                             h_notes = []\<rparr>],
                actualDelivery := Some clock\<rparr>"

definition shop_delivered :: db where
  "shop_delivered = shop_after_order\<lparr>orders := [(''o1'', delivered_order)]\<rparr>"

text \<open>A pricing block whose total is not the sum of its parts, as a request body may carry.\<close>

definition odd_pricing :: pricing where
  "odd_pricing = \<lparr>subtotal = 1180, totalDiscount = 0, totalTax = 180, shipping = 50,
                    packaging = 0, total = 5000, amountPaid = 0, amountDue = 0\<rparr>"

text \<open>The delivered order after a further status request, and the first order cancelled.\<close>

definition reopened_order :: order where
  "reopened_order =
    delivered_order\<lparr>status := ''pending'',
                    history := history delivered_order @
                      [\<lparr>h_status = ''pending'', h_location = [], h_timestamp = clock,
                        h_notes = []\<rparr>]\<rparr>"

definition cancelled_order :: order where
  "cancelled_order =
    first_order\<lparr>status := ''cancelled'', cancellationReason := Some ''changed mind'',
                cancelledAt := Some clock\<rparr>"

definition shop_cancelled :: db where
  "shop_cancelled =
    shop_after_order\<lparr>products := [''p1'' \<mapsto> widget], orders := [(''o1'', cancelled_order)]\<rparr>"

text \<open>A line for a product that does not exist.\<close>

definition ghost_item :: item_req where
  "ghost_item = \<lparr>ri_product = ''p9'', ri_quantity = 1, ri_unitPrice = None, ri_discount = None,
                  ri_taxRate = None, ri_notes = None\<rparr>"

text \<open>An invoice for the first order, a payment request, and documents not yet numbered.\<close>

definition first_invoice :: invoice where
  "first_invoice =
    \<lparr>i_user = ''u1'', invoiceNumber = Some ''INV/261103/0001'', i_total = 1230,
     amountInWords = Some ''One Thousand Two Hundred Thirty Rupees'', pd_status = ''pending'',
     paidAmount = 0, pd_paidDate = None, payments = [], i_status = ''draft'',
     dates_paidDate = None\<rparr>"

definition shop_invoiced :: db where
  "shop_invoiced = shop_after_order\<lparr>invoices := [(''i1'', first_invoice)]\<rparr>"

definition pay :: "rat \<Rightarrow> payment_req" where
  "pay amount = \<lparr>pr_amount = amount, pr_method = Some ''upi'', pr_reference = None,
                  pr_notes = None\<rparr>"

definition new_order :: order where
  "new_order = first_order\<lparr>orderNumber := None\<rparr>"

definition new_invoice :: invoice where
  "new_invoice = first_invoice\<lparr>invoiceNumber := None\<rparr>"

text \<open>An order that carries a number of the caller's choosing.\<close>

definition lettered_order :: order where
  "lettered_order = first_order\<lparr>orderNumber := Some ''A-7''\<rparr>"



section \<open>Properties\<close>

subsection \<open>Evaluating the example\<close>

lemma replicate_num: "replicate (numeral k) x = x # replicate (pred_numeral k) x"
  by (simp add: numeral_eq_Suc)

lemmas js_defs =
  or_num_def or_str_def truthy_str_def padStart_def slice_last_def digit_char_def
  toString.simps replicate_num Let_def

lemmas schema_defs =
  product_save_def customer_save_def customer_pre_save_def findCustomer_def findOrder_def
  order_validate_def order_statuses_def countDocuments_orders_def order_number_def
  order_pre_save_def order_insert_def order_save_new_def order_save_def

lemmas example_defs =
  widget_def alice_def shop_def clock_def widgets_def request_def unnumbered_def misspelt_def
  first_order_def shop_after_order_def

lemma example_createOrder:
  "createOrder ''u1'' (request [widgets 2]) clock ''o1'' shop = (Inr first_order, shop_after_order)"
  by (simp add: createOrder_def line_item_def example_defs schema_defs js_defs)

subsection \<open>Order creation\<close>



lemma order_save_new_result:
  assumes "order_save_new d date oid ord = Inr (ord', d')"
  shows "items ord' = items ord"
    and "subtotal (o_pricing ord') = subtotal (o_pricing ord)"
    and "shipping (o_pricing ord') = shipping (o_pricing ord)"
    and "packaging (o_pricing ord') = packaging (o_pricing ord)"
    and "total (o_pricing ord') = total (o_pricing ord)"
    and "amountPaid (o_pricing ord') = amountPaid (o_pricing ord)"
    and "amountDue (o_pricing ord') = total (o_pricing ord) - amountPaid (o_pricing ord)"
    and "map_of (orders d') oid = Some ord'"
    and "products d' = products d"
    and "customers d' = customers d"
    and "order_validate ord"
  using assms
  by (auto simp: order_save_new_def order_pre_save_def order_insert_def Let_def map_add_def
           split: if_splits sum.splits)

lemma customer_save_frame:
  "orders (customer_save d cid c) = orders d" "products (customer_save d cid c) = products d"
  by (simp_all add: customer_save_def)












subsection \<open>Amount in words\<close>






subsection \<open>Saving, status changes and the restore loop\<close>

lemma order_save_result:
  assumes "order_save d date oid ord = Inr (ord', d')"
  shows "o_pricing ord' = (o_pricing ord)\<lparr>amountDue := total (o_pricing ord) - amountPaid (o_pricing ord)\<rparr>"
    and "items ord' = items ord"
    and "status ord' = status ord"
    and "history ord' = history ord"
    and "actualDelivery ord' = actualDelivery ord"
    and "cancelledAt ord' = cancelledAt ord"
    and "cancellationReason ord' = cancellationReason ord"
    and "o_user ord' = o_user ord"
    and "map_of (orders d') oid = Some ord'"
    and "products d' = products d"
    and "customers d' = customers d"
    and "invoices d' = invoices d"
    and "order_validate ord"
  using assms
  by (auto simp: order_save_def order_pre_save_def Let_def update_conv' split: if_splits)

lemma order_save_succeeds:
  "order_validate ord \<Longrightarrow> \<exists>ord' d'. order_save d date oid ord = Inr (ord', d')"
  by (simp add: order_save_def Let_def)


lemma restoreInventory_restores:
  assumes "\<forall>pid p. products d pid = Some p \<longrightarrow> 0 \<le> inv_quantity p"
    and "\<forall>it \<in> set its. 0 \<le> oi_quantity it"
  shows "\<exists>d'. restoreInventory d its = (None, d')
          \<and> orders d' = orders d \<and> customers d' = customers d \<and> invoices d' = invoices d
          \<and> (\<forall>pid. products d' pid =
                map_option (\<lambda>p. if trackInventory p
                   then p\<lparr>inv_quantity := inv_quantity p +
                          sum_list (map oi_quantity (filter (\<lambda>it. oi_product it = pid) its))\<rparr>
                   else p) (products d pid))"
  using assms
proof (induction its arbitrary: d)
  case Nil
  show ?case by (simp add: map_option_case split: option.split)
next
  case (Cons item rest)
  have rest_nonneg: "\<forall>it \<in> set rest. 0 \<le> oi_quantity it" and q: "0 \<le> oi_quantity item"
    using Cons.prems(2) by simp_all
  show ?case
  proof (cases "products d (oi_product item)")
    case None
    from Cons.IH [OF Cons.prems(1) rest_nonneg] obtain d' where
      r: "restoreInventory d rest = (None, d')" "orders d' = orders d" "customers d' = customers d"
         "invoices d' = invoices d"
         "\<forall>pid. products d' pid =
                map_option (\<lambda>p. if trackInventory p
                   then p\<lparr>inv_quantity := inv_quantity p +
                          sum_list (map oi_quantity (filter (\<lambda>it. oi_product it = pid) rest))\<rparr>
                   else p) (products d pid)"
      by blast
    show ?thesis
    proof (intro exI [of _ d'] conjI allI)
      show "restoreInventory d (item # rest) = (None, d')" using None r(1) by simp
      fix pid
      show "products d' pid =
                map_option (\<lambda>p. if trackInventory p
                   then p\<lparr>inv_quantity := inv_quantity p +
                          sum_list (map oi_quantity (filter (\<lambda>it. oi_product it = pid) (item # rest)))\<rparr>
                   else p) (products d pid)"
        using r(5) None by (cases "oi_product item = pid") (auto cong: if_cong)
    qed (use r in simp_all)
  next
    case (Some p)
    show ?thesis
    proof (cases "trackInventory p")
      case False
      from Cons.IH [OF Cons.prems(1) rest_nonneg] obtain d' where
        r: "restoreInventory d rest = (None, d')" "orders d' = orders d" "customers d' = customers d"
           "invoices d' = invoices d"
           "\<forall>pid. products d' pid =
                map_option (\<lambda>p. if trackInventory p
                   then p\<lparr>inv_quantity := inv_quantity p +
                          sum_list (map oi_quantity (filter (\<lambda>it. oi_product it = pid) rest))\<rparr>
                   else p) (products d pid)"
        by blast
      show ?thesis
      proof (intro exI [of _ d'] conjI allI)
        show "restoreInventory d (item # rest) = (None, d')" using Some False r(1) by simp
        fix pid
        show "products d' pid =
                map_option (\<lambda>p. if trackInventory p
                   then p\<lparr>inv_quantity := inv_quantity p +
                          sum_list (map oi_quantity (filter (\<lambda>it. oi_product it = pid) (item # rest)))\<rparr>
                   else p) (products d pid)"
          using r(5) Some False by (cases "oi_product item = pid") (auto cong: if_cong)
      qed (use r in simp_all)
    next
      case True
      let ?p' = "p\<lparr>inv_quantity := inv_quantity p + oi_quantity item\<rparr>"
      let ?d1 = "d\<lparr>products := (products d)(oi_product item \<mapsto> ?p')\<rparr>"
      have p0: "0 \<le> inv_quantity p" using Cons.prems(1) Some by blast
      have sv: "product_save d (oi_product item) ?p' = Inr ?d1"
        using p0 q by (simp add: product_save_def)
      have d1_nonneg: "\<forall>pid p. products ?d1 pid = Some p \<longrightarrow> 0 \<le> inv_quantity p"
        using Cons.prems(1) p0 q by auto
      from Cons.IH [OF d1_nonneg rest_nonneg] obtain d' where
        r: "restoreInventory ?d1 rest = (None, d')" "orders d' = orders ?d1"
           "customers d' = customers ?d1" "invoices d' = invoices ?d1"
           "\<forall>pid. products d' pid =
                map_option (\<lambda>p. if trackInventory p
                   then p\<lparr>inv_quantity := inv_quantity p +
                          sum_list (map oi_quantity (filter (\<lambda>it. oi_product it = pid) rest))\<rparr>
                   else p) (products ?d1 pid)"
        by blast
      show ?thesis
      proof (intro exI [of _ d'] conjI allI)
        show "restoreInventory d (item # rest) = (None, d')" using Some True sv r(1) by simp
        fix pid
        show "products d' pid =
                map_option (\<lambda>p. if trackInventory p
                   then p\<lparr>inv_quantity := inv_quantity p +
                          sum_list (map oi_quantity (filter (\<lambda>it. oi_product it = pid) (item # rest)))\<rparr>
                   else p) (products d pid)"
          using r(5) Some True by (cases "oi_product item = pid") (auto simp: add.assoc cong: if_cong)
      qed (use r in simp_all)
    qed
  qed
qed

subsection \<open>The pricing block\<close>

lemmas example_defs2 = set_status_def delivered_order_def shop_delivered_def odd_pricing_def







subsection \<open>Status changes\<close>

lemmas example_defs3 = reopened_order_def cancelled_order_def shop_cancelled_def

text \<open>
  C9 (amended). The status route never looks at the current status. For a stored order
  of the caller that passes the schema (it has its number, every line quantity is at least
  one) and a requested status of the schema's list, it succeeds from every current
  status, terminal or not: it stores the requested status,
  appends a history entry exactly when the status differs from the current one, and stamps
  \<open>actualDelivery\<close> when the requested status is \<open>delivered\<close>.
\<close>

theorem transitionOrderStatus_unguarded:
  assumes "findOrder d oid userId = Some ord"
    and "list_all (\<lambda>it. 1 \<le> oi_quantity it) (items ord)"
    and "st_status body \<in> set order_statuses"
    and "truthy_str (orderNumber ord)"
  shows "\<exists>ord' d'. transitionOrderStatus userId oid body now d = (Inr ord', d')
           \<and> map_of (orders d') oid = Some ord'
           \<and> status ord' = st_status body
           \<and> history ord' =
               (if st_status body \<noteq> status ord
                then history ord @ [\<lparr>h_status = st_status body, h_location = or_str (st_location body) [],
                                      h_timestamp = now, h_notes = or_str (st_notes body) []\<rparr>]
                else history ord)
           \<and> actualDelivery ord' = (if st_status body = ''delivered'' then Some now else actualDelivery ord)"
proof -
  let ?ord1 = "ord\<lparr>status := st_status body\<rparr>"
  let ?ord2 = "if truthy_str (st_notes body) then ?ord1\<lparr>notes_internal := st_notes body\<rparr> else ?ord1"
  let ?ord3 = "if st_status body \<noteq> status ord
       then ?ord2\<lparr>history := history ?ord2 @
              [\<lparr>h_status = st_status body, h_location = or_str (st_location body) [],
                h_timestamp = now, h_notes = or_str (st_notes body) []\<rparr>]\<rparr>
       else ?ord2"
  let ?ord4 = "if st_status body = ''delivered'' then ?ord3\<lparr>actualDelivery := Some now\<rparr> else ?ord3"
  have "items ?ord4 = items ord" "status ?ord4 = st_status body" "orderNumber ?ord4 = orderNumber ord"
    by simp_all
  then have v: "order_validate ?ord4"
    using assms(2,3,4) unfolding order_validate_def by metis
  then obtain ord' d' where sv: "order_save d now oid ?ord4 = Inr (ord', d')"
    using order_save_succeeds by blast
  have t: "transitionOrderStatus userId oid body now d = (Inr ord', d')"
    using assms(1) sv by (simp add: transitionOrderStatus_def Let_def)
  note r = order_save_result [OF sv]
  show ?thesis
  proof (intro exI conjI)
    show "transitionOrderStatus userId oid body now d = (Inr ord', d')" by (rule t)
    show "map_of (orders d') oid = Some ord'" by (rule r(9))
    show "status ord' = st_status body" using r(3) by simp
    show "history ord' =
               (if st_status body \<noteq> status ord
                then history ord @ [\<lparr>h_status = st_status body, h_location = or_str (st_location body) [],
                                      h_timestamp = now, h_notes = or_str (st_notes body) []\<rparr>]
                else history ord)"
      using r(4) by simp
    show "actualDelivery ord' = (if st_status body = ''delivered'' then Some now else actualDelivery ord)"
      using r(5) by simp
  qed
qed

lemma example_find_delivered: "findOrder shop_delivered ''o1'' ''u1'' = Some delivered_order"
  by (simp add: findOrder_def example_defs example_defs2)

theorem transitionOrderStatus_unguarded_witness:
  "findOrder shop_delivered ''o1'' ''u1'' = Some delivered_order
   \<and> status delivered_order = ''delivered''
   \<and> list_all (\<lambda>it. 1 \<le> oi_quantity it) (items delivered_order)
   \<and> st_status (set_status ''refunded'') \<in> set order_statuses
   \<and> truthy_str (orderNumber delivered_order)
   \<and> map_option status (map_of (orders (snd (transitionOrderStatus ''u1'' ''o1'' (set_status ''refunded'')
         clock shop_delivered))) ''o1'') = Some ''refunded''"
proof -
  have h2: "list_all (\<lambda>it. 1 \<le> oi_quantity it) (items delivered_order)"
    by (simp add: example_defs example_defs2)
  have h3: "st_status (set_status ''refunded'') \<in> set order_statuses"
    by (simp add: set_status_def order_statuses_def)
  have h4: "truthy_str (orderNumber delivered_order)"
    by (simp add: truthy_str_def example_defs example_defs2)
  from transitionOrderStatus_unguarded [OF example_find_delivered h2 h3 h4, of clock]
  have "map_option status (map_of (orders (snd (transitionOrderStatus ''u1'' ''o1'' (set_status ''refunded'')
         clock shop_delivered))) ''o1'') = Some ''refunded''"
    by (auto simp: set_status_def)
  with example_find_delivered h2 h3 h4 show ?thesis
    by (simp add: example_defs example_defs2)
qed

text \<open>
  A delivered order is set back to \<open>pending\<close>: the request succeeds, the stored status
  changes and a second history entry is appended.
\<close>

theorem transitionOrderStatus_from_delivered:
  "map_option status (findOrder shop_delivered ''o1'' ''u1'') = Some ''delivered''
   \<and> fst (transitionOrderStatus ''u1'' ''o1'' (set_status ''pending'') clock shop_delivered)
       = Inr reopened_order
   \<and> map_option (\<lambda>x. (status x, length (history x)))
        (map_of (orders (snd (transitionOrderStatus ''u1'' ''o1'' (set_status ''pending'') clock
           shop_delivered))) ''o1'') = Some (''pending'', 2)"
  by (simp add: transitionOrderStatus_def example_defs example_defs2 example_defs3 schema_defs js_defs)

subsection \<open>Cancellation\<close>

lemma cancelOrder_terminal:
  assumes "findOrder d oid userId = Some ord"
    and "status ord = ''delivered'' \<or> status ord = ''cancelled''"
  shows "cancelOrder userId oid reason now d = (Inl (ApiError 400 ''Order cannot be cancelled''), d)"
  using assms by (auto simp: cancelOrder_def)

lemma findOrder_stored:
  assumes "findOrder d oid userId = Some ord" and "map_of (orders d') oid = Some ord'"
    and "o_user ord' = o_user ord"
  shows "findOrder d' oid userId = Some ord'"
  using assms by (auto simp: findOrder_def split: option.splits if_splits)

text \<open>
  C8. For an order of the caller in a store that satisfies the schema validators (no
  product quantity below zero, every line quantity at least one, the order has its
  number), \<open>cancelOrder\<close> succeeds
  exactly when the status is neither \<open>delivered\<close> nor \<open>cancelled\<close>, and otherwise answers
  400 and leaves the store as it was. On success every tracked product gains the
  quantities of the order's lines that refer to it, untracked products are unchanged, the
  stored order is \<open>cancelled\<close> with the reason and the time of cancellation, and a
  second cancel answers 400 without touching the store.
\<close>

theorem cancelOrder_guard_and_restore:
  assumes "findOrder d oid userId = Some ord"
    and "\<forall>pid p. products d pid = Some p \<longrightarrow> 0 \<le> inv_quantity p"
    and "list_all (\<lambda>it. 1 \<le> oi_quantity it) (items ord)"
    and "truthy_str (orderNumber ord)"
  shows "((\<exists>ord' d'. cancelOrder userId oid reason now d = (Inr ord', d'))
            \<longleftrightarrow> status ord \<notin> {''delivered'', ''cancelled''})
       \<and> (status ord \<in> {''delivered'', ''cancelled''} \<longrightarrow>
            cancelOrder userId oid reason now d = (Inl (ApiError 400 ''Order cannot be cancelled''), d))
       \<and> (\<forall>ord' d'. cancelOrder userId oid reason now d = (Inr ord', d') \<longrightarrow>
              map_of (orders d') oid = Some ord'
            \<and> status ord' = ''cancelled''
            \<and> cancellationReason ord' = reason
            \<and> cancelledAt ord' = Some now
            \<and> (\<forall>pid. products d' pid =
                  map_option (\<lambda>p. if trackInventory p
                     then p\<lparr>inv_quantity := inv_quantity p +
                            sum_list (map oi_quantity (filter (\<lambda>it. oi_product it = pid) (items ord)))\<rparr>
                     else p) (products d pid))
            \<and> cancelOrder userId oid reason' now' d'
                = (Inl (ApiError 400 ''Order cannot be cancelled''), d'))"
proof -
  let ?c = "ord\<lparr>status := ''cancelled'', cancellationReason := reason, cancelledAt := Some now\<rparr>"
  have nonneg: "\<forall>it \<in> set (items ord). 0 \<le> oi_quantity it"
    using assms(3) by (auto simp: list_all_iff)
  from restoreInventory_restores [OF assms(2) nonneg] obtain d1 where
    r: "restoreInventory d (items ord) = (None, d1)"
    and pr: "\<forall>pid. products d1 pid =
                  map_option (\<lambda>p. if trackInventory p
                     then p\<lparr>inv_quantity := inv_quantity p +
                            sum_list (map oi_quantity (filter (\<lambda>it. oi_product it = pid) (items ord)))\<rparr>
                     else p) (products d pid)"
    by blast
  have "order_validate ?c"
    using assms(3,4) by (simp add: order_validate_def order_statuses_def)
  then obtain oc dc where sv: "order_save d1 now oid ?c = Inr (oc, dc)"
    using order_save_succeeds by blast
  note s = order_save_result [OF sv]
  have ok: "cancelOrder userId oid reason now d = (Inr oc, dc)"
    if "status ord \<notin> {''delivered'', ''cancelled''}"
    using that assms(1) r sv by (simp add: cancelOrder_def)
  have rej: "cancelOrder userId oid reason now d = (Inl (ApiError 400 ''Order cannot be cancelled''), d)"
    if "status ord \<in> {''delivered'', ''cancelled''}"
    using that cancelOrder_terminal [OF assms(1)] by simp
  have iff: "(\<exists>ord' d'. cancelOrder userId oid reason now d = (Inr ord', d'))
            \<longleftrightarrow> status ord \<notin> {''delivered'', ''cancelled''}"
    using ok rej by (metis Inl_Inr_False prod.inject)
  have succ: "map_of (orders d') oid = Some ord'
            \<and> status ord' = ''cancelled''
            \<and> cancellationReason ord' = reason
            \<and> cancelledAt ord' = Some now
            \<and> (\<forall>pid. products d' pid =
                  map_option (\<lambda>p. if trackInventory p
                     then p\<lparr>inv_quantity := inv_quantity p +
                            sum_list (map oi_quantity (filter (\<lambda>it. oi_product it = pid) (items ord)))\<rparr>
                     else p) (products d pid))
            \<and> cancelOrder userId oid reason' now' d'
                = (Inl (ApiError 400 ''Order cannot be cancelled''), d')"
    if c: "cancelOrder userId oid reason now d = (Inr ord', d')" for ord' d'
  proof -
    have "status ord \<notin> {''delivered'', ''cancelled''}"
      using iff c by blast
    from ok [OF this] c have e: "ord' = oc" "d' = dc"
      by simp_all
    have st: "status oc = ''cancelled''" using s(3) by simp
    have "findOrder dc oid userId = Some oc"
      using findOrder_stored [OF assms(1) s(9)] s(8) by simp
    then have again: "cancelOrder userId oid reason' now' dc
                = (Inl (ApiError 400 ''Order cannot be cancelled''), dc)"
      using cancelOrder_terminal st by blast
    show ?thesis
      unfolding e using s(9) st s(6,7) s(10) pr again by simp
  qed
  from iff rej succ show ?thesis
    by blast
qed

lemma example_find_first: "findOrder shop_after_order ''o1'' ''u1'' = Some first_order"
  by (simp add: findOrder_def example_defs)

lemma example_cancel:
  "cancelOrder ''u1'' ''o1'' (Some ''changed mind'') clock shop_after_order
     = (Inr cancelled_order, shop_cancelled)"
  by (simp add: cancelOrder_def example_defs example_defs3 schema_defs js_defs)

theorem cancelOrder_guard_and_restore_witness:
  "findOrder shop_after_order ''o1'' ''u1'' = Some first_order
   \<and> map_option inv_quantity (products shop_after_order ''p1'') = Some 8
   \<and> list_all (\<lambda>it. 1 \<le> oi_quantity it) (items first_order)
   \<and> truthy_str (orderNumber first_order)
   \<and> status first_order = ''pending''
   \<and> cancelOrder ''u1'' ''o1'' (Some ''changed mind'') clock shop_after_order
        = (Inr cancelled_order, shop_cancelled)
   \<and> status cancelled_order = ''cancelled''
   \<and> map_option inv_quantity (products shop_cancelled ''p1'') = Some (8 + 2)
   \<and> cancelOrder ''u1'' ''o1'' None clock shop_cancelled
        = (Inl (ApiError 400 ''Order cannot be cancelled''), shop_cancelled)"
proof -
  have h2: "\<forall>pid p. products shop_after_order pid = Some p \<longrightarrow> 0 \<le> inv_quantity p"
    by (simp add: example_defs)
  have h3: "list_all (\<lambda>it. 1 \<le> oi_quantity it) (items first_order)"
    by (simp add: example_defs)
  have h4: "truthy_str (orderNumber first_order)"
    by (simp add: truthy_str_def example_defs)
  note r = cancelOrder_guard_and_restore [OF example_find_first h2 h3 h4,
      of "Some ''changed mind''" clock None clock]
  from r example_cancel have
    a: "status cancelled_order = ''cancelled''"
    and b: "products shop_cancelled ''p1'' =
       map_option (\<lambda>p. if trackInventory p
                     then p\<lparr>inv_quantity := inv_quantity p +
                            sum_list (map oi_quantity (filter (\<lambda>it. oi_product it = ''p1'') (items first_order)))\<rparr>
                     else p) (products shop_after_order ''p1'')"
    and c: "cancelOrder ''u1'' ''o1'' None clock shop_cancelled
        = (Inl (ApiError 400 ''Order cannot be cancelled''), shop_cancelled)"
    by blast+
  have "map_option inv_quantity (products shop_cancelled ''p1'') = Some (8 + 2)"
    unfolding b by (simp add: example_defs)
  with a c h3 h4 example_find_first example_cancel show ?thesis
    by (simp add: example_defs)
qed

subsection \<open>Failed creations and stock\<close>

lemma processItems_append:
  "processItems d (xs @ ys) s acc =
    (case processItems d xs s acc of
       (Inl e, d1) \<Rightarrow> (Inl e, d1)
     | (Inr (s1, acc1), d1) \<Rightarrow> processItems d1 ys s1 acc1)"
  by (induction xs arbitrary: d s acc) (auto split: option.splits sum.splits)

lemma processItems_frame:
  "processItems d its s acc = (r, d') \<Longrightarrow>
     orders d' = orders d \<and> customers d' = customers d \<and> invoices d' = invoices d"
proof (induction its arbitrary: d s acc)
  case Nil
  then show ?case by simp
next
  case (Cons item rest)
  show ?case
  proof (cases "products d (ri_product item)")
    case None
    with Cons.prems show ?thesis by simp
  next
    case (Some p)
    show ?thesis
    proof (cases "trackInventory p \<and> \<not> inv_quantity p - ri_quantity item < 0")
      case True
      let ?d1 = "d\<lparr>products := (products d)(ri_product item \<mapsto> p\<lparr>inv_quantity := inv_quantity p - ri_quantity item\<rparr>)\<rparr>"
      from Cons.prems Some True have
        "processItems ?d1 rest (s + oi_total (line_item item p)) (acc @ [line_item item p]) = (r, d')"
        by (simp add: product_save_def)
      from Cons.IH [OF this] show ?thesis by simp
    next
      case False
      with Cons.prems Some Cons.IH show ?thesis
        by (auto simp: product_save_def split: if_splits)
    qed
  qed
qed

lemma processItems_nonneg:
  "processItems d its s acc = (r, d') \<Longrightarrow> products d pid = Some q \<Longrightarrow> 0 \<le> inv_quantity q \<Longrightarrow>
     \<exists>q'. products d' pid = Some q' \<and> 0 \<le> inv_quantity q'"
proof (induction its arbitrary: d s acc q)
  case Nil
  then show ?case by simp
next
  case (Cons item rest)
  show ?case
  proof (cases "products d (ri_product item)")
    case None
    with Cons.prems show ?thesis by simp
  next
    case (Some p)
    show ?thesis
    proof (cases "trackInventory p")
      case False
      with Cons.prems Some Cons.IH show ?thesis by auto
    next
      case True
      show ?thesis
      proof (cases "inv_quantity p - ri_quantity item < 0")
        case True
        with Cons.prems Some \<open>trackInventory p\<close> show ?thesis
          by (simp add: product_save_def)
      next
        case False
        let ?p' = "p\<lparr>inv_quantity := inv_quantity p - ri_quantity item\<rparr>"
        let ?d1 = "d\<lparr>products := (products d)(ri_product item \<mapsto> ?p')\<rparr>"
        from Cons.prems(1) Some False \<open>trackInventory p\<close> have rec:
          "processItems ?d1 rest (s + oi_total (line_item item p)) (acc @ [line_item item p]) = (r, d')"
          by (simp add: product_save_def)
        have "\<exists>q1. products ?d1 pid = Some q1 \<and> 0 \<le> inv_quantity q1"
          using Cons.prems(2,3) False by auto
        then obtain q1 where "products ?d1 pid = Some q1" "0 \<le> inv_quantity q1"
          by blast
        from Cons.IH [OF rec this] show ?thesis .
      qed
    qed
  qed
qed

lemma createOrder_products:
  assumes "findCustomer d (rq_customer body) userId = Some customer"
    and "processItems d (rq_items body) 0 [] = (r, d1)"
  shows "products (snd (createOrder userId body now oid d)) = products d1"
    and "r = Inl e \<Longrightarrow> createOrder userId body now oid d = (Inl e, d1)"
  using assms
  by (auto simp: createOrder_def customer_save_frame dest: order_save_new_result(9)
           split: sum.splits prod.splits)

text \<open>
  C7 (amended). When \<open>createOrder\<close> reaches a line whose product is tracked and has
  fewer units on hand than the line asks for, saving the decremented product is refused by
  the schema validator \<open>min: 0\<close> and the request fails with the answer the handler gives to
  every exception, 500 \<open>Failed to create order\<close>; there is no error of its own for
  insufficient stock. The handler leaves the store as it was before that line: no order is
  stored and the customers are unchanged. Whatever the request, a product quantity that
  was not below zero before \<open>createOrder\<close> is not below zero after it.
\<close>

theorem createOrder_insufficient_stock:
  "(findCustomer d (rq_customer body) userId = Some customer
      \<and> rq_items body = before @ item # after
      \<and> processItems d before 0 [] = (Inr (s, acc), d1)
      \<and> products d1 (ri_product item) = Some p
      \<and> trackInventory p \<and> inv_quantity p < ri_quantity item \<longrightarrow>
        createOrder userId body now oid d = (Inl (ApiError 500 ''Failed to create order''), d1)
      \<and> orders d1 = orders d
      \<and> customers d1 = customers d)
   \<and> (products d pid = Some q \<and> 0 \<le> inv_quantity q \<longrightarrow>
        (\<exists>q'. products (snd (createOrder userId body now oid d)) pid = Some q' \<and> 0 \<le> inv_quantity q'))"
proof (intro conjI impI)
  assume a: "findCustomer d (rq_customer body) userId = Some customer
      \<and> rq_items body = before @ item # after
      \<and> processItems d before 0 [] = (Inr (s, acc), d1)
      \<and> products d1 (ri_product item) = Some p
      \<and> trackInventory p \<and> inv_quantity p < ri_quantity item"
  then have "processItems d1 (item # after) s acc = (Inl (ApiError 500 ''Failed to create order''), d1)"
    by (simp add: product_save_def)
  with a have "processItems d (rq_items body) 0 [] = (Inl (ApiError 500 ''Failed to create order''), d1)"
    by (simp add: processItems_append)
  with a show "createOrder userId body now oid d = (Inl (ApiError 500 ''Failed to create order''), d1)"
    using createOrder_products(2) by blast
  from a show "orders d1 = orders d"
    using processItems_frame by blast
  from a show "customers d1 = customers d"
    using processItems_frame by blast
next
  assume b: "products d pid = Some q \<and> 0 \<le> inv_quantity q"
  show "\<exists>q'. products (snd (createOrder userId body now oid d)) pid = Some q' \<and> 0 \<le> inv_quantity q'"
  proof (cases "findCustomer d (rq_customer body) userId")
    case None
    with b show ?thesis by (simp add: createOrder_def)
  next
    case (Some customer)
    obtain r d1 where p: "processItems d (rq_items body) 0 [] = (r, d1)"
      by (cases "processItems d (rq_items body) 0 []") blast
    from processItems_nonneg [OF p] b obtain q' where "products d1 pid = Some q'" "0 \<le> inv_quantity q'"
      by blast
    then show ?thesis
      using createOrder_products(1) [OF Some p] by simp
  qed
qed

theorem createOrder_insufficient_stock_witness:
  "findCustomer shop (rq_customer (request [widgets 11])) ''u1'' = Some alice
   \<and> rq_items (request [widgets 11]) = [] @ widgets 11 # []
   \<and> processItems shop [] 0 [] = (Inr (0, []), shop)
   \<and> products shop (ri_product (widgets 11)) = Some widget
   \<and> trackInventory widget \<and> inv_quantity widget < ri_quantity (widgets 11)
   \<and> createOrder ''u1'' (request [widgets 11]) clock ''o1'' shop
        = (Inl (ApiError 500 ''Failed to create order''), shop)
   \<and> map_option inv_quantity (products shop ''p1'') = Some 10
   \<and> 0 \<le> inv_quantity widget
   \<and> map_option inv_quantity (products (snd (createOrder ''u1'' (request [widgets 2]) clock ''o1'' shop)) ''p1'')
        = Some 8"
proof -
  have h: "findCustomer shop (rq_customer (request [widgets 11])) ''u1'' = Some alice
      \<and> rq_items (request [widgets 11]) = [] @ widgets 11 # []
      \<and> processItems shop [] 0 [] = (Inr (0, []), shop)
      \<and> products shop (ri_product (widgets 11)) = Some widget
      \<and> trackInventory widget \<and> inv_quantity widget < ri_quantity (widgets 11)"
    by (simp add: findCustomer_def example_defs)
  have g: "products shop ''p1'' = Some widget \<and> 0 \<le> inv_quantity widget"
    by (simp add: example_defs)
  from createOrder_insufficient_stock
    [where d = shop and body = "request [widgets 11]" and userId = "''u1''" and customer = alice
       and before = "[]" and item = "widgets 11" and after = "[]" and s = 0 and acc = "[]"
       and ?d1.0 = shop and p = widget and now = clock and oid = "''o1''"] h
  have f: "createOrder ''u1'' (request [widgets 11]) clock ''o1'' shop
        = (Inl (ApiError 500 ''Failed to create order''), shop)"
    by blast
  from createOrder_insufficient_stock
    [where d = shop and body = "request [widgets 2]" and userId = "''u1''" and now = clock
       and oid = "''o1''" and pid = "''p1''" and q = widget] g
  have "\<exists>q'. products (snd (createOrder ''u1'' (request [widgets 2]) clock ''o1'' shop)) ''p1'' = Some q'
          \<and> 0 \<le> inv_quantity q'"
    by blast
  have e: "map_option inv_quantity (products (snd (createOrder ''u1'' (request [widgets 2]) clock ''o1'' shop)) ''p1'')
        = Some 8"
    by (simp add: example_createOrder shop_after_order_def)
  from h g f e show ?thesis
    by (simp add: example_defs)
qed

text \<open>
  Eleven widgets are asked for with ten on hand, and the request is answered 500
  \<open>Failed to create order\<close>. A request for two widgets, well within the stock, whose status
  is not one of the schema's gets the very same answer: the answer does not say that stock
  was insufficient.
\<close>

theorem createOrder_stock_error_generic:
  "map_option inv_quantity (products shop ''p1'') = Some 10
   \<and> fst (createOrder ''u1'' (request [widgets 11]) clock ''o1'' shop)
       = Inl (ApiError 500 ''Failed to create order'')
   \<and> fst (createOrder ''u1'' (misspelt [widgets 2]) clock ''o1'' shop)
       = Inl (ApiError 500 ''Failed to create order'')"
  by (simp add: createOrder_def line_item_def example_defs schema_defs js_defs)

text \<open>
  C6. A request for three widgets and then a product that does not exist is answered 400;
  no order is stored and the customer is untouched, but the three widgets taken for the
  first line stay taken: ten on hand before, seven after.
\<close>

theorem createOrder_partial_decrement:
  "fst (createOrder ''u1'' (request [widgets 3, ghost_item]) clock ''o1'' shop)
     = Inl (ApiError 400 ''Product not found: p9'')
   \<and> orders (snd (createOrder ''u1'' (request [widgets 3, ghost_item]) clock ''o1'' shop)) = orders shop
   \<and> customers (snd (createOrder ''u1'' (request [widgets 3, ghost_item]) clock ''o1'' shop)) ''c1''
       = customers shop ''c1''
   \<and> map_option inv_quantity (products shop ''p1'') = Some 10
   \<and> map_option inv_quantity
        (products (snd (createOrder ''u1'' (request [widgets 3, ghost_item]) clock ''o1'' shop)) ''p1'')
       = Some 7"
  by (simp add: createOrder_def line_item_def ghost_item_def example_defs schema_defs js_defs)

subsection \<open>Document numbers\<close>

lemmas example_defs5 =
  first_invoice_def shop_invoiced_def pay_def new_order_def new_invoice_def lettered_def
  lettered_order_def

text \<open>
  C4. A request to create an order that carries no order number is answered 500 and no
  order is stored: the schema requires the number, and validation comes before the
  pre-save hook that would assign it. The stock for the request has been taken all the
  same. Applied to that document, the hook would have assigned \<open>ORD/2611/0002\<close>, the second
  number of the owner. A new invoice without a number is refused in the same way, where
  its hook would have assigned \<open>INV/261103/0002\<close>. An order is stored only when the request
  carries a number, and then it keeps the caller's: here \<open>A-7\<close>.
\<close>

theorem numberless_documents_refused:
  "fst (createOrder ''u1'' (unnumbered [widgets 2]) clock ''o2'' shop_invoiced)
     = Inl (ApiError 500 ''Failed to create order'')
   \<and> orders (snd (createOrder ''u1'' (unnumbered [widgets 2]) clock ''o2'' shop_invoiced))
       = orders shop_invoiced
   \<and> map_option inv_quantity (products shop_invoiced ''p1'') = Some 8
   \<and> map_option inv_quantity
        (products (snd (createOrder ''u1'' (unnumbered [widgets 2]) clock ''o2'' shop_invoiced)) ''p1'')
       = Some 6
   \<and> order_save_new shop_invoiced clock ''o2'' new_order = Inl (ValidationError ''order'')
   \<and> orderNumber (order_pre_save clock (countDocuments_orders shop_invoiced ''u1'') new_order)
       = Some ''ORD/2611/0002''
   \<and> invoice_save_new shop_invoiced clock ''i2'' new_invoice = Inl (ValidationError ''invoiceNumber'')
   \<and> invoiceNumber (invoice_pre_save clock (countDocuments_invoices shop_invoiced ''u1'') new_invoice)
       = Some ''INV/261103/0002''
   \<and> map_option orderNumber
        (map_of (orders (snd (createOrder ''u1'' (lettered [widgets 2]) clock ''o2'' shop_invoiced))) ''o2'')
       = Some (Some ''A-7'')"
proof -
  have a: "fst (createOrder ''u1'' (unnumbered [widgets 2]) clock ''o2'' shop_invoiced)
     = Inl (ApiError 500 ''Failed to create order'')"
    "orders (snd (createOrder ''u1'' (unnumbered [widgets 2]) clock ''o2'' shop_invoiced))
       = orders shop_invoiced"
    "map_option inv_quantity
        (products (snd (createOrder ''u1'' (unnumbered [widgets 2]) clock ''o2'' shop_invoiced)) ''p1'')
       = Some 6"
    by (simp_all add: createOrder_def line_item_def example_defs example_defs5 schema_defs js_defs)
  have b: "map_option inv_quantity (products shop_invoiced ''p1'') = Some 8"
    by (simp add: example_defs example_defs5)
  have c: "order_save_new shop_invoiced clock ''o2'' new_order = Inl (ValidationError ''order'')"
    "orderNumber (order_pre_save clock (countDocuments_orders shop_invoiced ''u1'') new_order)
       = Some ''ORD/2611/0002''"
    by (simp_all add: example_defs example_defs5 schema_defs js_defs)
  have d: "invoice_save_new shop_invoiced clock ''i2'' new_invoice = Inl (ValidationError ''invoiceNumber'')"
    "invoiceNumber (invoice_pre_save clock (countDocuments_invoices shop_invoiced ''u1'') new_invoice)
       = Some ''INV/261103/0002''"
    by (simp_all add: invoice_save_new_def invoice_pre_save_def invoice_number_def
          countDocuments_invoices_def example_defs example_defs5 js_defs)
  have e: "map_option orderNumber
        (map_of (orders (snd (createOrder ''u1'' (lettered [widgets 2]) clock ''o2'' shop_invoiced))) ''o2'')
       = Some (Some ''A-7'')"
    by (simp add: createOrder_def line_item_def example_defs example_defs5 schema_defs js_defs)
  from a b c d e show ?thesis
    by blast
qed

subsection \<open>Payments\<close>

lemma invoice_save_result:
  assumes "invoice_save d date iid ivc = (ivc', d')"
  shows "payments ivc' = payments ivc" and "paidAmount ivc' = paidAmount ivc"
    and "i_total ivc' = i_total ivc" and "pd_status ivc' = pd_status ivc"
    and "pd_paidDate ivc' = pd_paidDate ivc" and "i_status ivc' = i_status ivc"
    and "dates_paidDate ivc' = dates_paidDate ivc"
    and "map_of (invoices d') iid = Some ivc'"
  using assms
  by (auto simp: invoice_save_def invoice_pre_save_def Let_def update_conv' split: if_splits)

text \<open>
  C3 (amended). For an invoice of the caller, \<open>recordPayment\<close> appends the payment record,
  adds the amount to \<open>paidAmount\<close> and stores the invoice. Afterwards the payment status is
  \<open>paid\<close> exactly when \<open>paidAmount >= total\<close>, and then \<open>paidDate\<close> is stamped and the invoice
  status is \<open>paid\<close>; it is \<open>partial\<close> exactly when \<open>paidAmount < total\<close>. The amount is not
  checked: only for a positive amount on a non-negative \<open>paidAmount\<close> does \<open>partial\<close> mean
  \<open>0 < paidAmount < total\<close>.
\<close>

theorem recordPayment_status:
  assumes "findInvoice d iid userId = Some ivc"
  shows "\<exists>ivc' d'. recordPayment userId iid body now d = (Inr ivc', d')
          \<and> map_of (invoices d') iid = Some ivc'
          \<and> payments ivc' = payments ivc @
                [\<lparr>pay_amount = pr_amount body, pay_method = pr_method body,
                  pay_reference = pr_reference body, pay_notes = pr_notes body, pay_date = now\<rparr>]
          \<and> paidAmount ivc' = paidAmount ivc + pr_amount body
          \<and> i_total ivc' = i_total ivc
          \<and> (pd_status ivc' = ''paid'' \<longleftrightarrow> i_total ivc' \<le> paidAmount ivc')
          \<and> (pd_status ivc' = ''paid'' \<longrightarrow>
                pd_paidDate ivc' = Some now \<and> dates_paidDate ivc' = Some now \<and> i_status ivc' = ''paid'')
          \<and> (pd_status ivc' = ''partial'' \<longleftrightarrow> paidAmount ivc' < i_total ivc')
          \<and> (0 < pr_amount body \<and> 0 \<le> paidAmount ivc \<longrightarrow>
                (pd_status ivc' = ''partial'' \<longleftrightarrow> 0 < paidAmount ivc' \<and> paidAmount ivc' < i_total ivc'))"
proof -
  let ?p = "\<lparr>pay_amount = pr_amount body, pay_method = pr_method body,
             pay_reference = pr_reference body, pay_notes = pr_notes body, pay_date = now\<rparr>"
  let ?i2 = "ivc\<lparr>payments := payments ivc @ [?p], paidAmount := paidAmount ivc + pr_amount body\<rparr>"
  let ?i3 = "if i_total ?i2 \<le> paidAmount ?i2
             then ?i2\<lparr>pd_status := ''paid'', pd_paidDate := Some now,
                       dates_paidDate := Some now, i_status := ''paid''\<rparr>
             else ?i2\<lparr>pd_status := ''partial''\<rparr>"
  obtain ivc' d' where sv: "invoice_save d now iid ?i3 = (ivc', d')"
    by (cases "invoice_save d now iid ?i3") blast
  have rp: "recordPayment userId iid body now d = (Inr ivc', d')"
    using assms sv by (auto simp: recordPayment_def Let_def split: if_splits)
  note r = invoice_save_result [OF sv]
  have paid: "i_total ivc \<le> paidAmount ivc + pr_amount body \<Longrightarrow>
      pd_status ivc' = ''paid'' \<and> pd_paidDate ivc' = Some now \<and> dates_paidDate ivc' = Some now
        \<and> i_status ivc' = ''paid''"
    using r(4-7) by simp
  have part: "\<not> i_total ivc \<le> paidAmount ivc + pr_amount body \<Longrightarrow> pd_status ivc' = ''partial''"
    using r(4) by simp
  have pa: "paidAmount ivc' = paidAmount ivc + pr_amount body" and to: "i_total ivc' = i_total ivc"
    using r(2,3) by (simp_all split: if_splits)
  show ?thesis
  proof (intro exI conjI)
    show "recordPayment userId iid body now d = (Inr ivc', d')" by (rule rp)
    show "map_of (invoices d') iid = Some ivc'" by (rule r(8))
    show "payments ivc' = payments ivc @ [?p]" using r(1) by (simp split: if_splits)
    show "paidAmount ivc' = paidAmount ivc + pr_amount body" by (rule pa)
    show "i_total ivc' = i_total ivc" by (rule to)
    show "pd_status ivc' = ''paid'' \<longleftrightarrow> i_total ivc' \<le> paidAmount ivc'"
      using paid part pa to by (cases "i_total ivc \<le> paidAmount ivc + pr_amount body") simp_all
    show "pd_status ivc' = ''paid'' \<longrightarrow>
            pd_paidDate ivc' = Some now \<and> dates_paidDate ivc' = Some now \<and> i_status ivc' = ''paid''"
      using paid part by (cases "i_total ivc \<le> paidAmount ivc + pr_amount body") simp_all
    show "pd_status ivc' = ''partial'' \<longleftrightarrow> paidAmount ivc' < i_total ivc'"
      using paid part pa to by (cases "i_total ivc \<le> paidAmount ivc + pr_amount body") simp_all
    show "0 < pr_amount body \<and> 0 \<le> paidAmount ivc \<longrightarrow>
            (pd_status ivc' = ''partial'' \<longleftrightarrow> 0 < paidAmount ivc' \<and> paidAmount ivc' < i_total ivc')"
      using paid part pa to by (cases "i_total ivc \<le> paidAmount ivc + pr_amount body") auto
  qed
qed

lemma example_find_invoice: "findInvoice shop_invoiced ''i1'' ''u1'' = Some first_invoice"
  by (simp add: findInvoice_def example_defs example_defs5)

theorem recordPayment_status_witness:
  "findInvoice shop_invoiced ''i1'' ''u1'' = Some first_invoice
   \<and> 0 < pr_amount (pay 1230) \<and> 0 \<le> paidAmount first_invoice
   \<and> map_option (\<lambda>x. (pd_status x, paidAmount x, i_status x, pd_paidDate x))
        (map_of (invoices (snd (recordPayment ''u1'' ''i1'' (pay 1230) clock shop_invoiced))) ''i1'')
       = Some (''paid'', 1230, ''paid'', Some clock)
   \<and> map_option (\<lambda>x. (pd_status x, paidAmount x, i_status x, pd_paidDate x))
        (map_of (invoices (snd (recordPayment ''u1'' ''i1'' (pay 230) clock shop_invoiced))) ''i1'')
       = Some (''partial'', 230, ''draft'', None)"
proof -
  have t: "i_total first_invoice = 1230" "paidAmount first_invoice = 0"
    by (simp_all add: first_invoice_def)
  from recordPayment_status [OF example_find_invoice, of "pay 1230" clock] obtain i1 d1 where
    a: "recordPayment ''u1'' ''i1'' (pay 1230) clock shop_invoiced = (Inr i1, d1)"
       "map_of (invoices d1) ''i1'' = Some i1" "paidAmount i1 = 1230" "pd_status i1 = ''paid''"
       "pd_paidDate i1 = Some clock" "i_status i1 = ''paid''"
    by (auto simp: t pay_def)
  have b: "map_option (\<lambda>x. (pd_status x, paidAmount x, i_status x, pd_paidDate x))
        (map_of (invoices (snd (recordPayment ''u1'' ''i1'' (pay 230) clock shop_invoiced))) ''i1'')
       = Some (''partial'', 230, ''draft'', None)"
    by (simp add: recordPayment_def findInvoice_def invoice_save_def invoice_pre_save_def
          countDocuments_invoices_def example_defs example_defs5 js_defs)
  have c: "0 < pr_amount (pay 1230) \<and> 0 \<le> paidAmount first_invoice"
    by (simp add: pay_def first_invoice_def)
  from a b c example_find_invoice show ?thesis
    by simp
qed

text \<open>
  A payment of amount 0 on an invoice on which nothing has been paid: the status becomes
  \<open>partial\<close> while \<open>paidAmount\<close> is still 0.
\<close>

theorem recordPayment_zero_amount:
  "map_option (\<lambda>x. (pd_status x, paidAmount x, i_total x))
     (map_of (invoices (snd (recordPayment ''u1'' ''i1'' (pay 0) clock shop_invoiced))) ''i1'')
   = Some (''partial'', 0, 1230)"
  by (simp add: recordPayment_def findInvoice_def invoice_save_def invoice_pre_save_def
        countDocuments_invoices_def example_defs example_defs5 js_defs)

subsection \<open>Two requests saving at once\<close>

lemma order_save_new_steps:
  "run_schedule [0, 0] ([Start oid date ord], d) =
     (case order_save_new d date oid ord of
        Inl e \<Rightarrow> ([Finished (Inl e)], d)
      | Inr (ord', d') \<Rightarrow> ([Finished (Inr ord')], d'))"
  by (simp add: order_save_new_def Let_def split: sum.splits)


end
